theory Spec2Isabelle
  imports Main
begin

section \<open>The interpreter as seen through its C API\<close>

text \<open>
  The two host programs (\<^verbatim>\<open>hello-world.cpp\<close> and \<^verbatim>\<open>calling-lua-function.cpp\<close>) drive a
  Lua interpreter through the stack-based C API of \<^verbatim>\<open>lua.hpp\<close>. The interpreter is an
  external library: its primitives are modelled here after the Lua 5.3 reference manual
  (the programs test \<^verbatim>\<open>LUA_ERRGCMM\<close>, which exists in Lua 5.2 and 5.3), and everything
  the library decides on its own (what a script function does, how a traceback line is
  rendered, how a number is printed, whether allocation succeeds, what a chunk compiles
  to) is a field of the record \<open>env\<close>, so every theorem holds for any such interpreter.
  Two things the library has are left out: metatables (a value is callable only when it is a
  function) and the capacity of the stack (a push always finds room).
\<close>

type_synonym fid = nat
type_synonym frame = string

text \<open>The C functions the host itself registers with the interpreter.\<close>

datatype cfunction = MessageHandler

text \<open>
  Tagged values. \<open>Function\<close> is a callable owned by the interpreter (a script function or
  a library function such as \<^verbatim>\<open>print\<close>); \<open>CFunction\<close> is a host function pushed with
  \<^verbatim>\<open>lua_pushcfunction\<close>. The payload of a number is opaque (no property here depends on
  arithmetic); \<open>numfmt\<close> below renders it.
\<close>

datatype lua_value =
    Nil
  | Boolean bool
  | Number int
  | Str string
  | Function fid
  | CFunction cfunction
  | Table nat

type_synonym globals = "string \<Rightarrow> lua_value option"

datatype status =
    LUA_OK
  | LUA_ERRRUN
  | LUA_ERRSYNTAX
  | LUA_ERRMEM
  | LUA_ERRGCMM
  | LUA_ERRERR
  | LUA_ERRFILE

text \<open>
  One statement writing to a stream; the operands of \<^verbatim>\<open><<\<close> in order, each a
  \<^verbatim>\<open>const char *\<close>. A statement is recorded only when every operand is a text: inserting
  a null pointer into a stream is undefined behaviour, the fault \<open>NullStreamed\<close> below.
\<close>

datatype event = Cout "string option list" | Cerr "string option list"

text \<open>
  The state behind a \<^verbatim>\<open>lua_State *\<close>: the value stack of the running C frame (bottom
  first, so index 1 is the head and index -1 the last element), the global environment, and
  the active call frames (innermost first) that a traceback describes. Three observation
  fields are threaded along: the text the host code has written (what a script prints is
  not recorded), how many times a call
  primitive has handed a value to the interpreter for execution, and how many times
  \<^verbatim>\<open>lua_close\<close> has been applied.
\<close>

record lua_State =
  stack :: "lua_value list"
  globals :: globals
  callstack :: "frame list"
  console :: "event list"
  invocations :: nat
  closed :: nat

text \<open>
  What executing a callable can do: return values, raise an error value (with the call
  frames active at the raise), exhaust memory, fail inside error handling, fail in a
  finalizer, or never return.
\<close>

datatype call_outcome =
    Returns "lua_value list"
  | Raises lua_value "frame list"
  | OutOfMemory
  | HandlerFailure
  | GcFailure lua_value
  | Diverges

text \<open>
  Ways a host operation does not return to its caller: an error outside any protected call
  (the panic function runs and the process aborts), an index that names no stack slot
  (undefined behaviour of the API), a call that never returns, or a null
  \<^verbatim>\<open>const char *\<close> inserted into an output stream (undefined behaviour of the C++ library).
\<close>

datatype fault = Panic lua_value | BadIndex | NoReturn | NullStreamed

record env =
  alloc_ok :: bool
  stdlib :: globals
  interp :: "fid \<Rightarrow> lua_value list \<Rightarrow> globals \<Rightarrow> call_outcome \<times> globals"
  render :: "frame list \<Rightarrow> string"
  numfmt :: "int \<Rightarrow> string"
  loadstring :: "string \<Rightarrow> string + fid"
  loadfile :: "string \<Rightarrow> string + fid"

definition nl :: string where
  "nl = [CHR 0x0A]"

subsection \<open>Stack primitives\<close>

definition lua_gettop :: "lua_State \<Rightarrow> int" where
  "lua_gettop L = int (length (stack L))"

text \<open>Position in the list of the slot an index names; \<open>None\<close> when it names none.\<close>

definition index2addr :: "lua_State \<Rightarrow> int \<Rightarrow> nat option" where
  "index2addr L idx =
     (if 0 < idx \<and> idx \<le> lua_gettop L then Some (nat (idx - 1))
      else if idx < 0 \<and> - idx \<le> lua_gettop L then Some (nat (lua_gettop L + idx))
      else None)"

definition push :: "lua_State \<Rightarrow> lua_value \<Rightarrow> lua_State" where
  "push L v = L\<lparr>stack := stack L @ [v]\<rparr>"

definition lua_pushstring :: "lua_State \<Rightarrow> string \<Rightarrow> lua_State" where
  "lua_pushstring L s = push L (Str s)"

definition lua_pushcfunction :: "lua_State \<Rightarrow> cfunction \<Rightarrow> lua_State" where
  "lua_pushcfunction L f = push L (CFunction f)"

text \<open>A global that was never assigned reads as nil.\<close>

definition lua_getglobal :: "lua_State \<Rightarrow> string \<Rightarrow> lua_State" where
  "lua_getglobal L name =
     push L (case globals L name of None \<Rightarrow> Nil | Some v \<Rightarrow> v)"

definition lua_isnil :: "lua_State \<Rightarrow> int \<Rightarrow> fault + bool" where
  "lua_isnil L idx =
     (case index2addr L idx of
        None \<Rightarrow> Inl BadIndex
      | Some i \<Rightarrow> Inr (stack L ! i = Nil))"

text \<open>
  A Lua string may hold zero bytes. The host receives it as a \<^verbatim>\<open>const char *\<close> without a
  length, and everything it hands that pointer to (\<^verbatim>\<open>luaL_traceback\<close>, \<^verbatim>\<open>operator<<\<close>,
  \<^verbatim>\<open>printf\<close>) reads up to the first zero byte: that prefix is the text the host sees.
\<close>

definition c_text :: "string \<Rightarrow> string" where
  "c_text s = takeWhile (\<lambda>c. c \<noteq> CHR 0x00) s"

text \<open>
  \<^verbatim>\<open>lua_tostring\<close>: a pointer to the bytes of a string; a number is converted to a string in
  its slot and a pointer to that string returned; any other value gives a null pointer.
  \<open>textual\<close> is the text behind the pointer.
\<close>

definition textual :: "env \<Rightarrow> lua_value \<Rightarrow> string option" where
  "textual E v =
     (case v of
        Str s \<Rightarrow> Some (c_text s)
      | Number n \<Rightarrow> Some (c_text (numfmt E n))
      | _ \<Rightarrow> None)"

definition lua_tostring :: "env \<Rightarrow> lua_State \<Rightarrow> int \<Rightarrow> fault + (string option \<times> lua_State)" where
  "lua_tostring E L idx =
     (case index2addr L idx of
        None \<Rightarrow> Inl BadIndex
      | Some i \<Rightarrow>
          (case stack L ! i of
             Number n \<Rightarrow>
               Inr (Some (c_text (numfmt E n)), L\<lparr>stack := (stack L)[i := Str (numfmt E n)]\<rparr>)
           | v \<Rightarrow> Inr (textual E v, L)))"

definition lua_settop :: "lua_State \<Rightarrow> int \<Rightarrow> fault + lua_State" where
  "lua_settop L idx =
     (if 0 \<le> idx
      then Inr (L\<lparr>stack := take (nat idx) (stack L @ replicate (nat idx) Nil)\<rparr>)
      else if - idx \<le> lua_gettop L + 1
      then Inr (L\<lparr>stack := take (nat (lua_gettop L + idx + 1)) (stack L)\<rparr>)
      else Inl BadIndex)"

definition lua_pop :: "lua_State \<Rightarrow> int \<Rightarrow> fault + lua_State" where
  "lua_pop L n = lua_settop L (- n - 1)"

definition lua_remove :: "lua_State \<Rightarrow> int \<Rightarrow> fault + lua_State" where
  "lua_remove L idx =
     (case index2addr L idx of
        None \<Rightarrow> Inl BadIndex
      | Some i \<Rightarrow> Inr (L\<lparr>stack := take i (stack L) @ drop (Suc i) (stack L)\<rparr>))"

definition cout :: "lua_State \<Rightarrow> string option list \<Rightarrow> lua_State" where
  "cout L ws = L\<lparr>console := console L @ [Cout ws]\<rparr>"

definition cerr :: "lua_State \<Rightarrow> string option list \<Rightarrow> lua_State" where
  "cerr L ws = L\<lparr>console := console L @ [Cerr ws]\<rparr>"

subsection \<open>Traceback and the message handler\<close>

text \<open>
  \<^verbatim>\<open>luaL_traceback(L, L, msg, level)\<close> pushes one string: the message and a newline when
  the message is not null, then the header, then the description of the active frames from
  \<open>level\<close> on (level 0 is the running function).
\<close>

definition traceback_text :: "env \<Rightarrow> string option \<Rightarrow> nat \<Rightarrow> frame list \<Rightarrow> string" where
  "traceback_text E msg level fs =
     (case msg of None \<Rightarrow> [] | Some m \<Rightarrow> m @ nl) @ ''stack traceback:'' @ render E (drop level fs)"

definition luaL_traceback :: "env \<Rightarrow> lua_State \<Rightarrow> string option \<Rightarrow> nat \<Rightarrow> lua_State" where
  "luaL_traceback E L msg level = push L (Str (traceback_text E msg level (callstack L)))"

text \<open>
  \<^verbatim>\<open>messageHandler\<close> of \<^verbatim>\<open>calling-lua-function.cpp\<close>. The result pairs the frame's final
  state with the number of values the function declares as its results.
\<close>

definition messageHandler :: "env \<Rightarrow> lua_State \<Rightarrow> fault + (lua_State \<times> int)" where
  "messageHandler E L =
     (case lua_tostring E L (- 1) of
        Inl f \<Rightarrow> Inl f
      | Inr (errorMsg, L1) \<Rightarrow>
          (case lua_remove (luaL_traceback E L1 errorMsg 1) (- 2) of
             Inl f \<Rightarrow> Inl f
           | Inr L3 \<Rightarrow> Inr (L3, 1)))"

subsection \<open>Calling\<close>

text \<open>
  Results adjusted to the count the caller declared: padded with nil or truncated; a
  negative count (\<^verbatim>\<open>LUA_MULTRET\<close>) keeps them all.
\<close>

definition adjust :: "int \<Rightarrow> lua_value list \<Rightarrow> lua_value list" where
  "adjust nresults rs =
     (if nresults < 0 then rs
      else take (nat nresults) (rs @ replicate (nat nresults) Nil))"

definition handler_frame :: frame where
  "handler_frame = ''[C]: in ?''"

text \<open>
  A host C function runs in a frame of its own whose stack holds just its arguments; its
  results are the topmost values of that frame, as many as it returned.
\<close>

definition call_c :: "env \<Rightarrow> lua_State \<Rightarrow> cfunction \<Rightarrow> lua_value list \<Rightarrow> frame list \<Rightarrow> fault + lua_value list" where
  "call_c E L c args fs =
     (case c of
        MessageHandler \<Rightarrow>
          (case messageHandler E (L\<lparr>stack := args, callstack := handler_frame # fs\<rparr>) of
             Inl f \<Rightarrow> Inl f
           | Inr (F, n) \<Rightarrow>
               (if n < 0 \<or> int (length (stack F)) < n then Inl BadIndex
                else Inr (drop (length (stack F) - nat n) (stack F)))))"

definition type_name :: "lua_value \<Rightarrow> string" where
  "type_name v =
     (case v of
        Nil \<Rightarrow> ''nil''
      | Boolean _ \<Rightarrow> ''boolean''
      | Number _ \<Rightarrow> ''number''
      | Str _ \<Rightarrow> ''string''
      | Table _ \<Rightarrow> ''table''
      | _ \<Rightarrow> ''function'')"

text \<open>
  Handing a value to the interpreter for execution. A value that is not callable raises
  the interpreter's own error.
\<close>

definition invoke :: "env \<Rightarrow> lua_State \<Rightarrow> lua_value \<Rightarrow> lua_value list \<Rightarrow> fault + (call_outcome \<times> globals)" where
  "invoke E L f args =
     (case f of
        Function g \<Rightarrow> Inr (interp E g args (globals L))
      | CFunction c \<Rightarrow>
          (case call_c E L c args (callstack L) of
             Inl x \<Rightarrow> Inl x
           | Inr rs \<Rightarrow> Inr (Returns rs, globals L))
      | v \<Rightarrow> Inr (Raises (Str (''attempt to call a '' @ type_name v @ '' value'')) (callstack L),
               globals L))"

text \<open>
  \<^verbatim>\<open>lua_call\<close>: the callable and its arguments are removed, the adjusted results pushed.
  Any error propagates: there is no protected call to catch it, so the process aborts.
\<close>

definition lua_call :: "env \<Rightarrow> lua_State \<Rightarrow> int \<Rightarrow> int \<Rightarrow> fault + lua_State" where
  "lua_call E L nargs nresults =
     (if nargs < 0 \<or> lua_gettop L < nargs + 1 then Inl BadIndex
      else
        (case invoke E L (stack L ! (length (stack L) - nat nargs - 1))
                (drop (length (stack L) - nat nargs) (stack L)) of
           Inl x \<Rightarrow> Inl x
         | Inr (Returns rs, g) \<Rightarrow>
             Inr (L\<lparr>stack := take (length (stack L) - nat nargs - 1) (stack L) @ adjust nresults rs,
                     globals := g, invocations := invocations L + 1\<rparr>)
         | Inr (Raises e fs, g) \<Rightarrow> Inl (Panic e)
         | Inr (OutOfMemory, g) \<Rightarrow> Inl (Panic (Str ''not enough memory''))
         | Inr (HandlerFailure, g) \<Rightarrow> Inl (Panic (Str ''error in error handling''))
         | Inr (GcFailure e, g) \<Rightarrow> Inl (Panic e)
         | Inr (Diverges, g) \<Rightarrow> Inl NoReturn))"

text \<open>
  The message handler of a protected call runs on the raised value, at the point of the
  raise, and its first result becomes the error value. A handler that cannot be called or
  that raises itself ends in \<^verbatim>\<open>LUA_ERRERR\<close>.
\<close>

definition run_handler :: "env \<Rightarrow> lua_State \<Rightarrow> lua_value \<Rightarrow> lua_value \<Rightarrow> frame list \<Rightarrow> fault + (status \<times> lua_value \<times> globals)" where
  "run_handler E L h e fs =
     (case h of
        CFunction c \<Rightarrow>
          (case call_c E L c [e] fs of
             Inl x \<Rightarrow> Inl x
           | Inr rs \<Rightarrow> Inr (LUA_ERRRUN, hd (adjust 1 rs), globals L))
      | Function g \<Rightarrow>
          (case interp E g [e] (globals L) of
             (Returns rs, G) \<Rightarrow> Inr (LUA_ERRRUN, hd (adjust 1 rs), G)
           | (OutOfMemory, G) \<Rightarrow> Inr (LUA_ERRMEM, Str ''not enough memory'', G)
           | (GcFailure x, G) \<Rightarrow> Inr (LUA_ERRGCMM, x, G)
           | (Diverges, G) \<Rightarrow> Inl NoReturn
           | (_, G) \<Rightarrow> Inr (LUA_ERRERR, Str ''error in error handling'', G))
      | _ \<Rightarrow> Inr (LUA_ERRERR, Str ''error in error handling'', globals L))"

text \<open>
  \<^verbatim>\<open>lua_pcall(L, nargs, nresults, msgh)\<close>: like \<^verbatim>\<open>lua_call\<close>, but an error is caught: the
  callable and its arguments are removed, one error value is pushed and a status other
  than \<^verbatim>\<open>LUA_OK\<close> returned. The slot \<open>msgh\<close> (0 for none) holds the message handler; it
  lies below the callable and is left where it is. The handler is not run for memory and
  finalizer errors.
\<close>

definition lua_pcall :: "env \<Rightarrow> lua_State \<Rightarrow> int \<Rightarrow> int \<Rightarrow> int \<Rightarrow> fault + (status \<times> lua_State)" where
  "lua_pcall E L nargs nresults msgh =
     (if nargs < 0 \<or> lua_gettop L < nargs + 1 then Inl BadIndex
      else if msgh \<noteq> 0 \<and> index2addr L msgh = None then Inl BadIndex
      else
        (let below = take (length (stack L) - nat nargs - 1) (stack L);
             L' = L\<lparr>invocations := invocations L + 1\<rparr>
         in case invoke E L (stack L ! (length (stack L) - nat nargs - 1))
                  (drop (length (stack L) - nat nargs) (stack L)) of
              Inl x \<Rightarrow> Inl x
            | Inr (Returns rs, g) \<Rightarrow>
                Inr (LUA_OK, L'\<lparr>stack := below @ adjust nresults rs, globals := g\<rparr>)
            | Inr (Raises e fs, g) \<Rightarrow>
                (if msgh = 0 then Inr (LUA_ERRRUN, L'\<lparr>stack := below @ [e], globals := g\<rparr>)
                 else
                   (case run_handler E (L\<lparr>globals := g\<rparr>) (stack L ! the (index2addr L msgh)) e fs of
                      Inl x \<Rightarrow> Inl x
                    | Inr (st, e', g') \<Rightarrow> Inr (st, L'\<lparr>stack := below @ [e'], globals := g'\<rparr>)))
            | Inr (OutOfMemory, g) \<Rightarrow>
                Inr (LUA_ERRMEM, L'\<lparr>stack := below @ [Str ''not enough memory''], globals := g\<rparr>)
            | Inr (HandlerFailure, g) \<Rightarrow>
                Inr (LUA_ERRERR, L'\<lparr>stack := below @ [Str ''error in error handling''], globals := g\<rparr>)
            | Inr (GcFailure e, g) \<Rightarrow>
                Inr (LUA_ERRGCMM, L'\<lparr>stack := below @ [e], globals := g\<rparr>)
            | Inr (Diverges, g) \<Rightarrow> Inl NoReturn))"

section \<open>The host functions of calling-lua-function.cpp\<close>

definition callHello :: "env \<Rightarrow> lua_State \<Rightarrow> fault + lua_State" where
  "callHello E L =
     (case lua_isnil (lua_getglobal L ''hello'') (- 1) of
        Inl x \<Rightarrow> Inl x
      | Inr True \<Rightarrow>
          Inr (cerr (lua_getglobal L ''hello'') [Some (''Global function hello not found'' @ nl)])
      | Inr False \<Rightarrow> lua_call E (lua_getglobal L ''hello'') 0 0)"

text \<open>The part of \<^verbatim>\<open>callSwap\<close> up to and including the call.\<close>

definition callSwap_invoke :: "env \<Rightarrow> lua_State \<Rightarrow> fault + lua_State" where
  "callSwap_invoke E L =
     lua_call E
       (lua_pushstring (lua_pushstring (lua_getglobal L ''swap'') ''red'') ''green'') 2 2"

text \<open>
  \<^verbatim>\<open>callSwap\<close>. Both results are read with \<^verbatim>\<open>lua_tostring\<close> and inserted into
  \<^verbatim>\<open>std::cout\<close> unchecked, so a result that is neither a string nor a number puts a null
  pointer into the stream.
\<close>

definition callSwap :: "env \<Rightarrow> lua_State \<Rightarrow> fault + lua_State" where
  "callSwap E L =
     (case callSwap_invoke E L of
        Inl x \<Rightarrow> Inl x
      | Inr L4 \<Rightarrow>
          (case lua_tostring E L4 (- 2) of
             Inl x \<Rightarrow> Inl x
           | Inr (first, L5) \<Rightarrow>
               (case lua_tostring E L5 (- 1) of
                  Inl x \<Rightarrow> Inl x
                | Inr (second, L6) \<Rightarrow>
                    if first = None \<or> second = None then Inl NullStreamed
                    else
                      lua_pop
                        (cout L6
                           [Some ''swap() returned '', first, Some '' and '', second, Some nl])
                        2)))"

text \<open>
  The part of \<^verbatim>\<open>pcallFail\<close> that follows the protected call: the chain of tests on its
  result. The error value is read with \<^verbatim>\<open>lua_tostring\<close> and inserted into \<^verbatim>\<open>std::cerr\<close>
  unchecked.
\<close>

definition pcallFail_check :: "env \<Rightarrow> status \<Rightarrow> lua_State \<Rightarrow> fault + lua_State" where
  "pcallFail_check E result L =
     (if result = LUA_ERRRUN then
        (case lua_tostring E L (- 1) of
           Inl x \<Rightarrow> Inl x
         | Inr (err, L1) \<Rightarrow>
             if err = None then Inl NullStreamed
             else lua_pop (cerr L1 [Some ''Error: '', err, Some nl]) 1)
      else if result = LUA_ERRMEM then Inr (cerr L [Some (''LUA_ERRMEM'' @ nl)])
      else if result = LUA_ERRERR then Inr (cerr L [Some (''LUA_ERRERR'' @ nl)])
      else if result = LUA_ERRGCMM then Inr (cerr L [Some (''LUA_ERRGCMM'' @ nl)])
      else Inr L)"

text \<open>
  The part of \<^verbatim>\<open>pcallFail\<close> up to and including the protected call; \<open>None\<close> is the early
  return taken when the global is nil, with the state it leaves.
\<close>

definition pcallFail_invoke :: "env \<Rightarrow> lua_State \<Rightarrow> fault + (lua_State + status \<times> lua_State)" where
  "pcallFail_invoke E L =
     (case lua_isnil (lua_getglobal L ''fail'') (- 1) of
        Inl x \<Rightarrow> Inl x
      | Inr True \<Rightarrow>
          Inr (Inl (cerr (lua_getglobal L ''fail'') [Some (''Global function fail not found'' @ nl)]))
      | Inr False \<Rightarrow>
          (case lua_pcall E (lua_getglobal L ''fail'') 0 0 0 of
             Inl x \<Rightarrow> Inl x
           | Inr r \<Rightarrow> Inr (Inr r)))"

definition pcallFail :: "env \<Rightarrow> lua_State \<Rightarrow> fault + lua_State" where
  "pcallFail E L =
     (case pcallFail_invoke E L of
        Inl x \<Rightarrow> Inl x
      | Inr (Inl L1) \<Rightarrow> Inr L1
      | Inr (Inr (result, L2)) \<Rightarrow> pcallFail_check E result L2)"

text \<open>
  The part of \<^verbatim>\<open>pcallSwap\<close> up to and including the protected call. The handler is pushed
  first and \<open>handlerIndex\<close> is the depth right after.
\<close>

definition pcallSwap_invoke :: "env \<Rightarrow> lua_State \<Rightarrow> fault + (status \<times> lua_State)" where
  "pcallSwap_invoke E L =
     lua_pcall E
       (lua_pushstring (lua_getglobal (lua_pushcfunction L MessageHandler) ''swap'') ''red'')
       1 2 (lua_gettop (lua_pushcfunction L MessageHandler))"

text \<open>The part of \<^verbatim>\<open>pcallSwap\<close> after the protected call; \<open>top0\<close> is \<^verbatim>\<open>top\<close>, the depth on entry.\<close>

definition pcallSwap_check :: "env \<Rightarrow> int \<Rightarrow> status \<Rightarrow> lua_State \<Rightarrow> fault + lua_State" where
  "pcallSwap_check E top0 result L =
     (if result = LUA_ERRRUN then
        (case lua_tostring E L (- 1) of
           Inl x \<Rightarrow> Inl x
         | Inr (err, L1) \<Rightarrow>
             if err = None then Inl NullStreamed
             else lua_pop (cerr L1 [err, Some nl]) 1)
      else if result = LUA_ERRMEM then Inr (cerr L [Some (''LUA_ERRMEM'' @ nl)])
      else if result = LUA_ERRERR then Inr (cerr L [Some (''LUA_ERRERR'' @ nl)])
      else if result = LUA_ERRGCMM then Inr (cerr L [Some (''LUA_ERRGCMM'' @ nl)])
      else lua_settop L top0)"

definition pcallSwap :: "env \<Rightarrow> lua_State \<Rightarrow> fault + lua_State" where
  "pcallSwap E L =
     (case pcallSwap_invoke E L of
        Inl x \<Rightarrow> Inl x
      | Inr (result, L4) \<Rightarrow> pcallSwap_check E (lua_gettop L) result L4)"

section \<open>The two main programs\<close>

text \<open>
  \<^verbatim>\<open>luaL_newstate\<close> returns a null pointer when the allocation fails, a fresh state
  otherwise; \<^verbatim>\<open>luaL_openlibs\<close> installs the standard library's globals; \<^verbatim>\<open>lua_close\<close>
  releases the state.
\<close>

definition luaL_newstate :: "env \<Rightarrow> lua_State option" where
  "luaL_newstate E =
     (if alloc_ok E
      then Some \<lparr>stack = [], globals = Map.empty, callstack = [], console = [],
                 invocations = 0, closed = 0\<rparr>
      else None)"

definition luaL_openlibs :: "env \<Rightarrow> lua_State \<Rightarrow> lua_State" where
  "luaL_openlibs E L = L\<lparr>globals := globals L ++ stdlib E\<rparr>"

definition lua_close :: "lua_State \<Rightarrow> lua_State" where
  "lua_close L = L\<lparr>closed := closed L + 1\<rparr>"

text \<open>
  \<^verbatim>\<open>luaL_dostring\<close> and \<^verbatim>\<open>luaL_dofile\<close> are the library's macros: load the chunk and,
  when that gave \<^verbatim>\<open>LUA_OK\<close>, run it with \<^verbatim>\<open>lua_pcall(L, 0, LUA_MULTRET, 0)\<close>. A failed
  load pushes its message.
\<close>

definition LUA_MULTRET :: int where
  "LUA_MULTRET = - 1"

definition luaL_loadstring :: "env \<Rightarrow> lua_State \<Rightarrow> string \<Rightarrow> status \<times> lua_State" where
  "luaL_loadstring E L s =
     (case loadstring E s of
        Inl msg \<Rightarrow> (LUA_ERRSYNTAX, push L (Str msg))
      | Inr f \<Rightarrow> (LUA_OK, push L (Function f)))"

definition luaL_loadfile :: "env \<Rightarrow> lua_State \<Rightarrow> string \<Rightarrow> status \<times> lua_State" where
  "luaL_loadfile E L filename =
     (case loadfile E filename of
        Inl msg \<Rightarrow> (LUA_ERRFILE, push L (Str msg))
      | Inr f \<Rightarrow> (LUA_OK, push L (Function f)))"

definition luaL_dostring :: "env \<Rightarrow> lua_State \<Rightarrow> string \<Rightarrow> fault + (status \<times> lua_State)" where
  "luaL_dostring E L s =
     (case luaL_loadstring E L s of
        (r, L1) \<Rightarrow> if r \<noteq> LUA_OK then Inr (r, L1) else lua_pcall E L1 0 LUA_MULTRET 0)"

definition luaL_dofile :: "env \<Rightarrow> lua_State \<Rightarrow> string \<Rightarrow> fault + (status \<times> lua_State)" where
  "luaL_dofile E L filename =
     (case luaL_loadfile E L filename of
        (r, L1) \<Rightarrow> if r \<noteq> LUA_OK then Inr (r, L1) else lua_pcall E L1 0 LUA_MULTRET 0)"

text \<open>\<^verbatim>\<open>luaL_checkstring\<close> raises an error, here outside any protected call, when the value has no text.\<close>

definition luaL_checkstring :: "env \<Rightarrow> lua_State \<Rightarrow> int \<Rightarrow> fault + (string \<times> lua_State)" where
  "luaL_checkstring E L idx =
     (case lua_tostring E L idx of
        Inl x \<Rightarrow> Inl x
      | Inr (None, L1) \<Rightarrow> Inl (Panic (Str ''bad argument (string expected)''))
      | Inr (Some s, L1) \<Rightarrow> Inr (s, L1))"

text \<open>
  How a run of a program ends: the value \<^verbatim>\<open>main\<close> returned or the fault that ended the
  process; the interpreter instance as the process left it (\<open>None\<close> when none was
  created); and what was written while there was no instance.
\<close>

record process =
  ending :: "fault + int"
  interpreter :: "lua_State option"
  early :: "event list"

definition released :: "process \<Rightarrow> nat" where
  "released p = (case interpreter p of None \<Rightarrow> 0 | Some L \<Rightarrow> closed L)"

text \<open>\<^verbatim>\<open>main\<close> of \<^verbatim>\<open>hello-world.cpp\<close>.\<close>

definition hello_world_main :: "env \<Rightarrow> process" where
  "hello_world_main E =
     (case luaL_newstate E of
        None \<Rightarrow>
          \<lparr>ending = Inr (- 1), interpreter = None,
           early = [Cerr [Some (''Failed to create Lua state'' @ nl)]]\<rparr>
      | Some L \<Rightarrow>
          (case luaL_dostring E (luaL_openlibs E L) ''print('Hello world!')'' of
             Inl x \<Rightarrow> \<lparr>ending = Inl x, interpreter = Some (luaL_openlibs E L), early = []\<rparr>
           | Inr (r, L1) \<Rightarrow>
               if r \<noteq> LUA_OK
               then \<lparr>ending = Inr (- 1),
                     interpreter = Some (cerr L1 [Some (''Failed to do string'' @ nl)]), early = []\<rparr>
               else \<lparr>ending = Inr 0, interpreter = Some (lua_close L1), early = []\<rparr>))"

text \<open>
  The four calls of \<^verbatim>\<open>main\<close> of \<^verbatim>\<open>calling-lua-function.cpp\<close> in their order; a fault in
  one ends the process there.
\<close>

definition run_calls :: "env \<Rightarrow> lua_State \<Rightarrow> fault + lua_State" where
  "run_calls E L =
     (case callHello E L of
        Inl x \<Rightarrow> Inl x
      | Inr L1 \<Rightarrow>
          (case callSwap E L1 of
             Inl x \<Rightarrow> Inl x
           | Inr L2 \<Rightarrow>
               (case pcallFail E L2 of
                  Inl x \<Rightarrow> Inl x
                | Inr L3 \<Rightarrow> pcallSwap E L3)))"

text \<open>\<^verbatim>\<open>main\<close> of \<^verbatim>\<open>calling-lua-function.cpp\<close>.\<close>

definition calling_lua_function_main :: "env \<Rightarrow> process" where
  "calling_lua_function_main E =
     (case luaL_newstate E of
        None \<Rightarrow>
          \<lparr>ending = Inr (- 1), interpreter = None,
           early = [Cerr [Some (''Failed to create Lua state'' @ nl)]]\<rparr>
      | Some L \<Rightarrow>
          (case luaL_dofile E (luaL_openlibs E L) ''calling-lua-function.lua'' of
             Inl x \<Rightarrow> \<lparr>ending = Inl x, interpreter = Some (luaL_openlibs E L), early = []\<rparr>
           | Inr (r, L1) \<Rightarrow>
               if r \<noteq> LUA_OK
               then
                 (case luaL_checkstring E L1 (- 1) of
                    Inl x \<Rightarrow> \<lparr>ending = Inl x, interpreter = Some L1, early = []\<rparr>
                  | Inr (error, L2) \<Rightarrow>
                      \<lparr>ending = Inr (- 1),
                       interpreter = Some (cout L2 [Some ''Error: '', Some error, Some nl]),
                       early = []\<rparr>)
               else
                 (case run_calls E L1 of
                    Inl x \<Rightarrow> \<lparr>ending = Inl x, interpreter = Some L1, early = []\<rparr>
                  | Inr L5 \<Rightarrow> \<lparr>ending = Inr 0, interpreter = Some (lua_close L5), early = []\<rparr>)))"

section \<open>A sample interpreter\<close>

text \<open>
  A concrete interpreter and script to run the programs on. Function 0 is \<^verbatim>\<open>hello\<close> (no
  results), function 1 is \<^verbatim>\<open>swap\<close> (returns its two arguments exchanged and raises when the
  second is missing), function 2 is \<^verbatim>\<open>fail\<close> (always raises), function 3 is a chunk that
  defines the three, and function 4 is a \<^verbatim>\<open>swap\<close> that tolerates a missing argument.
\<close>

definition sample_script :: globals where
  "sample_script =
     [''hello'' \<mapsto> Function 0, ''swap'' \<mapsto> Function 1, ''fail'' \<mapsto> Function 2]"

definition sample_interp :: "fid \<Rightarrow> lua_value list \<Rightarrow> globals \<Rightarrow> call_outcome \<times> globals" where
  "sample_interp f args g =
     (if f = 0 then (Returns [], g)
      else if f = 1 then
        (case args of
           [a, b] \<Rightarrow> (Returns [b, a], g)
         | _ \<Rightarrow> (Raises (Str ''attempt to concatenate a nil value'') [''in function swap''], g))
      else if f = 2 then (Raises (Str ''failed'') [''in function fail''], g)
      else if f = 3 then (Returns [], g ++ sample_script)
      else if f = 4 then (Returns (rev (adjust 2 args)), g)
      else (Returns [], g))"

definition sample_render :: "frame list \<Rightarrow> string" where
  "sample_render fs = concat (map (\<lambda>f. nl @ f) fs)"

definition sample_env :: env where
  "sample_env =
     \<lparr>alloc_ok = True, stdlib = Map.empty, interp = sample_interp, render = sample_render,
      numfmt = (\<lambda>n. ''0''), loadstring = (\<lambda>s. Inr 3), loadfile = (\<lambda>s. Inr 3)\<rparr>"

text \<open>The same interpreter when the script cannot be loaded.\<close>

definition broken_env :: env where
  "broken_env =
     sample_env\<lparr>loadstring := (\<lambda>s. Inl ''syntax error''),
                loadfile := (\<lambda>s. Inl ''cannot open calling-lua-function.lua'')\<rparr>"

definition state0 :: lua_State where
  "state0 = \<lparr>stack = [], globals = Map.empty, callstack = [], console = [],
             invocations = 0, closed = 0\<rparr>"

text \<open>The state after the sample script was loaded, and the same without \<^verbatim>\<open>swap\<close>.\<close>

definition loaded :: lua_State where
  "loaded = state0\<lparr>globals := sample_script\<rparr>"

definition no_swap :: lua_State where
  "no_swap = state0\<lparr>globals := [''hello'' \<mapsto> Function 0, ''fail'' \<mapsto> Function 2]\<rparr>"

text \<open>A state whose \<^verbatim>\<open>swap\<close> tolerates a missing argument and whose \<^verbatim>\<open>fail\<close> does not raise.\<close>

definition lenient :: lua_State where
  "lenient = state0\<lparr>globals := [''swap'' \<mapsto> Function 4, ''fail'' \<mapsto> Function 0]\<rparr>"

section \<open>Observations used in the statements\<close>

text \<open>\<^verbatim>\<open>lua_isstring\<close> of the API: true of a string and of a number (which converts to one).\<close>

definition lua_isstring :: "lua_value \<Rightarrow> bool" where
  "lua_isstring v = (case v of Str _ \<Rightarrow> True | Number _ \<Rightarrow> True | _ \<Rightarrow> False)"

text \<open>The stack a host function leaves when it returns to its caller.\<close>

definition stack_of :: "fault + lua_State \<Rightarrow> lua_value list option" where
  "stack_of r = (case r of Inl x \<Rightarrow> None | Inr L \<Rightarrow> Some (stack L))"

text \<open>The status and the stack depth right after a protected call returned.\<close>

definition depth_after :: "fault + (status \<times> lua_State) \<Rightarrow> (status \<times> nat) option" where
  "depth_after r = (case r of Inl x \<Rightarrow> None | Inr (st, L) \<Rightarrow> Some (st, length (stack L)))"

section \<open>Facts about the primitives\<close>

lemmas sample_defs = sample_env_def sample_interp_def sample_render_def sample_script_def
  broken_env_def state0_def loaded_def no_swap_def lenient_def

lemmas api_defs = c_text_def lua_gettop_def index2addr_def push_def lua_pushstring_def
  lua_pushcfunction_def lua_getglobal_def lua_isnil_def textual_def lua_tostring_def
  lua_settop_def lua_pop_def lua_remove_def cout_def cerr_def traceback_text_def
  luaL_traceback_def messageHandler_def adjust_def handler_frame_def call_c_def type_name_def
  invoke_def lua_call_def run_handler_def lua_pcall_def

lemma update_last_of_two: "(xs @ [a, b])[Suc (length xs) := v] = xs @ [a, v]"
  by (simp add: list_update_append)


text \<open>
  \<^verbatim>\<open>lua_tostring\<close> on a valid index returns the text of the value there and changes at most
  that slot.
\<close>

lemma lua_tostring_shape:
  assumes "index2addr L idx = Some i"
  shows "\<exists>v. lua_tostring E L idx =
           Inr (textual E (stack L ! i), L\<lparr>stack := (stack L)[i := v]\<rparr>)"
proof (cases "\<exists>n. stack L ! i = Number n")
  case True
  then obtain n where "stack L ! i = Number n" by blast
  then have "lua_tostring E L idx =
      Inr (textual E (stack L ! i), L\<lparr>stack := (stack L)[i := Str (numfmt E n)]\<rparr>)"
    using assms by (simp add: lua_tostring_def textual_def)
  then show ?thesis by blast
next
  case False
  then have "lua_tostring E L idx = Inr (textual E (stack L ! i), L)"
    using assms by (cases "stack L ! i") (simp_all add: lua_tostring_def)
  moreover have "L = L\<lparr>stack := (stack L)[i := stack L ! i]\<rparr>" by simp
  ultimately show ?thesis by metis
qed

text \<open>The handler replaces the value on top of its frame by the traceback and returns 1.\<close>

lemma messageHandler_frame:
  assumes "stack L = xs @ [e]"
  shows "messageHandler E L =
     Inr (L\<lparr>stack := xs @ [Str (traceback_text E (textual E e) 1 (callstack L))]\<rparr>, 1)"
proof -
  have top1: "index2addr L (- 1) = Some (length xs)"
    using assms by (simp add: index2addr_def lua_gettop_def)
  show ?thesis
    using assms top1
    by (cases e) (simp_all add: messageHandler_def lua_tostring_def textual_def
        luaL_traceback_def push_def lua_remove_def index2addr_def lua_gettop_def)
qed

lemma call_c_handler:
  "call_c E L MessageHandler [e] fs =
     Inr [Str (traceback_text E (textual E e) 1 (handler_frame # fs))]"
  using messageHandler_frame
    [where E = E and L = "L\<lparr>stack := [e], callstack := handler_frame # fs\<rparr>"
       and xs = "[]" and e = e]
  by (simp add: call_c_def)

text \<open>A handler never turns an error into success.\<close>

lemma run_handler_status: "run_handler E L h e fs = Inr (st, v, g) \<Longrightarrow> st \<noteq> LUA_OK"
  by (auto simp: run_handler_def
      split: lua_value.splits sum.splits prod.splits call_outcome.splits)

text \<open>
  The contract of the protected call: whatever the status, the callable and its arguments
  are gone and everything below them is untouched; on \<^verbatim>\<open>LUA_OK\<close> the adjusted results lie
  on top, otherwise exactly one value.
\<close>

lemma lua_pcall_stack:
  assumes "lua_pcall E L nargs nresults msgh = Inr (st, L')"
  shows "\<exists>vs. stack L' = take (length (stack L) - nat nargs - 1) (stack L) @ vs \<and>
              (if st = LUA_OK then (\<exists>rs. vs = adjust nresults rs) else length vs = 1)"
  using assms
  by (auto simp: lua_pcall_def Let_def dest: run_handler_status
      split: if_splits sum.splits prod.splits call_outcome.splits)

lemma pcallSwap_invoke_stack:
  assumes "pcallSwap_invoke E L = Inr (st, L')"
  shows "\<exists>vs. stack L' = stack L @ CFunction MessageHandler # vs \<and>
              (if st = LUA_OK then length vs = 2 else length vs = 1)"
proof -
  from lua_pcall_stack [OF assms [unfolded pcallSwap_invoke_def]]
  obtain vs where vs: "stack L' = stack L @ [CFunction MessageHandler] @ vs"
    and k: "if st = LUA_OK then (\<exists>rs. vs = adjust 2 rs) else length vs = 1"
    by (auto simp: lua_pushstring_def lua_getglobal_def lua_pushcfunction_def push_def)
  have "if st = LUA_OK then length vs = 2 else length vs = 1"
    using k by (auto simp: adjust_def split: if_splits)
  with vs show ?thesis by simp
qed

lemma pcallFail_invoke_stack:
  assumes "pcallFail_invoke E L = Inr (Inr (st, L'))"
  shows "\<exists>vs. stack L' = stack L @ vs \<and>
              (if st = LUA_OK then length vs = 0 else length vs = 1)"
proof -
  from assms have "lua_pcall E (lua_getglobal L ''fail'') 0 0 0 = Inr (st, L')"
    by (auto simp: pcallFail_invoke_def split: sum.splits bool.splits)
  from lua_pcall_stack [OF this]
  obtain vs where vs: "stack L' = stack L @ vs"
    and k: "if st = LUA_OK then (\<exists>rs. vs = adjust 0 rs) else length vs = 1"
    by (auto simp: lua_getglobal_def push_def)
  have "if st = LUA_OK then length vs = 0 else length vs = 1"
    using k by (auto simp: adjust_def split: if_splits)
  with vs show ?thesis by blast
qed

lemma callSwap_invoke_returns:
  assumes "globals L ''swap'' = Some (Function f)"
    and "interp E f [Str ''red'', Str ''green''] (globals L) = (Returns rs, g)"
  shows "callSwap_invoke E L
     = Inr (L\<lparr>stack := stack L @ adjust 2 rs, globals := g,
              invocations := invocations L + 1\<rparr>)"
  using assms
  by (simp add: callSwap_invoke_def lua_call_def lua_pushstring_def lua_getglobal_def push_def
      lua_gettop_def invoke_def nth_append)

lemma textual_None: "(textual E v = None) = (\<not> lua_isstring v)"
  by (cases v) (simp_all add: textual_def lua_isstring_def)

text \<open>
  With \<^verbatim>\<open>messageHandler\<close> installed, the error value of a runtime error is the string the
  handler built.
\<close>

lemma pcallSwap_invoke_runtime_error_value:
  assumes "pcallSwap_invoke E L = Inr (LUA_ERRRUN, L')"
  shows "\<exists>s. stack L' = stack L @ [CFunction MessageHandler, Str s]"
  using assms
  by (auto simp: pcallSwap_invoke_def lua_pcall_def Let_def lua_pushstring_def
      lua_getglobal_def lua_pushcfunction_def push_def lua_gettop_def index2addr_def nth_append
      run_handler_def call_c_handler adjust_def
      split: if_splits sum.splits prod.splits call_outcome.splits)

section \<open>The message handler\<close>

text \<open>
  Claim C7. For every raised error it handles, \<^verbatim>\<open>messageHandler\<close> builds a traceback seeded
  from the error's textual form while skipping one innermost frame (its own), removes the
  original error value so that the traceback is the sole value it leaves, and returns
  exactly one value. The textual form is the C string \<^verbatim>\<open>lua_tostring\<close> returns, passed on
  without a length: for a string its bytes before the first zero byte, for a number its
  rendering likewise, and no text for any other value (conjuncts 4 and 5). First conjunct:
  on any frame whose top is the error value \<open>e\<close>, the handler returns 1 and leaves the
  frame with \<open>e\<close> replaced by one string, the text of \<open>e\<close> and a newline (when \<open>e\<close>
  has a text), the header, and the frames from level 1 on. Second conjunct: run by the
  interpreter on the raised value alone, with \<open>fs\<close> the frames active at the raise, the
  handler yields that single string and the frames described are exactly \<open>fs\<close>, the
  handler's own frame left out. Third conjunct: as the message handler of a protected call
  it makes that string the error value, with status \<^verbatim>\<open>LUA_ERRRUN\<close>.
\<close>

theorem messageHandler_traceback:
  "messageHandler E (L\<lparr>stack := xs @ [e]\<rparr>) =
     Inr (L\<lparr>stack := xs @ [Str ((case textual E e of None \<Rightarrow> [] | Some m \<Rightarrow> m @ nl) @
              ''stack traceback:'' @ render E (drop 1 (callstack L)))]\<rparr>, 1)
   \<and> call_c E L MessageHandler [e] fs =
     Inr [Str ((case textual E e of None \<Rightarrow> [] | Some m \<Rightarrow> m @ nl) @
              ''stack traceback:'' @ render E fs)]
   \<and> run_handler E L (CFunction MessageHandler) e fs =
     Inr (LUA_ERRRUN,
          Str ((case textual E e of None \<Rightarrow> [] | Some m \<Rightarrow> m @ nl) @
               ''stack traceback:'' @ render E fs),
          globals L)
   \<and> textual E (Str s) = Some (takeWhile (\<lambda>c. c \<noteq> CHR 0x00) s)
   \<and> textual E (Number n) = Some (takeWhile (\<lambda>c. c \<noteq> CHR 0x00) (numfmt E n))"
  using messageHandler_frame [where E = E and L = "L\<lparr>stack := xs @ [e]\<rparr>" and xs = xs and e = e]
    call_c_handler [where E = E and L = L and e = e and fs = fs]
  by (simp add: traceback_text_def run_handler_def adjust_def textual_def c_text_def)

text \<open>
  An error string with a zero byte in it seeds the traceback with its prefix only; a string
  without one seeds it whole.
\<close>

lemma messageHandler_embedded_zero:
  "call_c sample_env state0 MessageHandler [Str (''ab'' @ [CHR 0x00] @ ''cd'')] [''in function fail'']
     = Inr [Str (''ab'' @ nl @ ''stack traceback:'' @ nl @ ''in function fail'')]
   \<and> call_c sample_env state0 MessageHandler [Str ''abcd''] [''in function fail'']
     = Inr [Str (''abcd'' @ nl @ ''stack traceback:'' @ nl @ ''in function fail'')]"
  by (simp add: call_c_handler traceback_text_def textual_def c_text_def handler_frame_def
      sample_env_def sample_render_def)

text \<open>
  Claim C9. If the raised value is neither a string nor a number, the text obtained for it
  is a null pointer, so the traceback is not seeded with the error's text, while the handler
  still returns one traceback value and does not raise.
\<close>

theorem messageHandler_no_text:
  "\<not> lua_isstring e \<Longrightarrow>
   lua_tostring E (L\<lparr>stack := xs @ [e]\<rparr>) (- 1) = Inr (None, L\<lparr>stack := xs @ [e]\<rparr>)
   \<and> messageHandler E (L\<lparr>stack := xs @ [e]\<rparr>) =
       Inr (L\<lparr>stack := xs @ [Str (''stack traceback:'' @ render E (drop 1 (callstack L)))]\<rparr>, 1)"
  using messageHandler_frame [where E = E and L = "L\<lparr>stack := xs @ [e]\<rparr>" and xs = xs and e = e]
  by (cases e) (simp_all add: lua_isstring_def lua_tostring_def index2addr_def lua_gettop_def
      textual_def traceback_text_def)

theorem messageHandler_no_text_witness:
  "\<not> lua_isstring (Table 0)
   \<and> lua_tostring sample_env
         (state0\<lparr>callstack := [handler_frame, ''in function fail''], stack := [Table 0]\<rparr>) (- 1)
       = Inr (None, state0\<lparr>callstack := [handler_frame, ''in function fail''], stack := [Table 0]\<rparr>)
   \<and> messageHandler sample_env
         (state0\<lparr>callstack := [handler_frame, ''in function fail''], stack := [Table 0]\<rparr>)
       = Inr (state0\<lparr>callstack := [handler_frame, ''in function fail''],
                stack := [Str (''stack traceback:'' @ nl @ ''in function fail'')]\<rparr>, 1)"
  using messageHandler_no_text [where e = "Table 0" and E = sample_env and xs = "[]"
      and L = "state0\<lparr>callstack := [handler_frame, ''in function fail'']\<rparr>"]
  by (simp add: lua_isstring_def sample_env_def sample_render_def)

section \<open>The unprotected calls\<close>

text \<open>
  Claim C8. When the global \<^verbatim>\<open>hello\<close> is absent, \<^verbatim>\<open>callHello\<close> returns early without
  popping the nil it pushed: it returns the state it was given with one nil more on the
  stack and the message written, nothing else changed (no invocation, same globals), so
  the depth grows by exactly one at each such attempt.
\<close>

theorem callHello_absent:
  "globals L ''hello'' = None \<Longrightarrow>
   callHello E L =
     Inr (L\<lparr>stack := stack L @ [Nil],
            console := console L @ [Cerr [Some (''Global function hello not found'' @ nl)]]\<rparr>)
   \<and> map_option length (stack_of (callHello E L)) = Some (length (stack L) + 1)"
  by (simp add: callHello_def lua_getglobal_def push_def lua_isnil_def index2addr_def
      lua_gettop_def cerr_def stack_of_def)

theorem callHello_absent_witness:
  "globals state0 ''hello'' = None
   \<and> callHello sample_env state0 =
       Inr (state0\<lparr>stack := [Nil],
              console := [Cerr [Some (''Global function hello not found'' @ nl)]]\<rparr>)
   \<and> map_option length (stack_of (callHello sample_env state0)) = Some 1"
  using callHello_absent [of state0 sample_env]
  by (simp add: state0_def stack_of_def)



text \<open>
  A result that is neither a string nor a number: the call has succeeded and its two
  results are read, then a null pointer goes into the stream.
\<close>

lemma callSwap_result_without_text:
  assumes "globals L ''swap'' = Some (Function f)"
    and "interp E f [Str ''red'', Str ''green''] (globals L) = (Returns [a, b], g)"
    and "\<not> lua_isstring a \<or> \<not> lua_isstring b"
  shows "callSwap E L = Inl NullStreamed"
proof -
  let ?L4 = "L\<lparr>stack := stack L @ [a, b], globals := g, invocations := invocations L + 1\<rparr>"
  have call: "callSwap_invoke E L = Inr ?L4"
    using callSwap_invoke_returns [OF assms(1,2)] by (simp add: adjust_def)
  have i2: "index2addr ?L4 (- 2) = Some (length (stack L))"
    by (simp add: index2addr_def lua_gettop_def)
  obtain a' where t2:
    "lua_tostring E ?L4 (- 2) = Inr (textual E a, ?L4\<lparr>stack := stack L @ [a', b]\<rparr>)"
    using lua_tostring_shape [OF i2, of E] by auto
  let ?L5 = "?L4\<lparr>stack := stack L @ [a', b]\<rparr>"
  have i1: "index2addr ?L5 (- 1) = Some (Suc (length (stack L)))"
    by (simp add: index2addr_def lua_gettop_def nat_add_distrib)
  obtain b' where t1:
    "lua_tostring E ?L5 (- 1) = Inr (textual E b, ?L5\<lparr>stack := stack L @ [a', b']\<rparr>)"
    using lua_tostring_shape [OF i1, of E] by (auto simp: nth_append update_last_of_two)
  have "textual E a = None \<or> textual E b = None"
    using assms(3) by (simp add: textual_None)
  then show ?thesis
    apply (simp only: callSwap_def call sum.case)
    apply (simp only: t2 sum.case prod.case)
    apply (simp only: t1 sum.case prod.case)
    apply simp
    done
qed

section \<open>The protected calls\<close>

subsection \<open>Depth right after the protected call\<close>

text \<open>
  Claim C5, as stated: right after a failing protected call the depth is the depth from
  before the call sequence began plus exactly one. In \<^verbatim>\<open>pcallSwap\<close> on the sample script
  (\<^verbatim>\<open>swap\<close> raises on the missing argument) the depth on entry is 0 and the depth right
  after \<^verbatim>\<open>lua_pcall\<close> returned \<^verbatim>\<open>LUA_ERRRUN\<close> is 2: the error value and, below it, the
  message handler that was pushed first.
\<close>

theorem failed_pcall_depth_counterexample:
  "depth_after (pcallSwap_invoke sample_env loaded) = Some (LUA_ERRRUN, 2)
   \<and> length (stack loaded) = 0
   \<and> (2::nat) \<noteq> length (stack loaded) + 1"
  by (simp add: depth_after_def pcallSwap_invoke_def sample_defs api_defs)

text \<open>
  Claim C5, amended. Right after the protected call returned a status other than
  \<^verbatim>\<open>LUA_OK\<close>, and before the caller pops anything, the depth is the depth from before the
  callable was pushed plus exactly one (the error value): the depth on entry plus one in
  \<^verbatim>\<open>pcallFail\<close>, which installs no handler, and the depth on entry plus two in
  \<^verbatim>\<open>pcallSwap\<close>, where the handler pushed before the callable stays on the stack.
\<close>

theorem failed_pcall_depth:
  "(pcallFail_invoke E L = Inr (Inr (st, L')) \<and> st \<noteq> LUA_OK
      \<longrightarrow> length (stack L') = length (stack L) + 1)
   \<and> (pcallSwap_invoke E L = Inr (st, L') \<and> st \<noteq> LUA_OK
      \<longrightarrow> length (stack L') = length (stack L) + 2)"
  using pcallFail_invoke_stack [of E L st L'] pcallSwap_invoke_stack [of E L st L']
  by auto

theorem failed_pcall_depth_witness:
  "pcallFail_invoke sample_env loaded =
     Inr (Inr (LUA_ERRRUN, loaded\<lparr>stack := [Str ''failed''], invocations := 1\<rparr>))
   \<and> LUA_ERRRUN \<noteq> LUA_OK
   \<and> length (stack (loaded\<lparr>stack := [Str ''failed''], invocations := 1\<rparr>))
       = length (stack loaded) + 1
   \<and> pcallSwap_invoke sample_env loaded =
     Inr (LUA_ERRRUN,
          loaded\<lparr>stack := [CFunction MessageHandler,
                    Str (''attempt to concatenate a nil value'' @ nl @ ''stack traceback:'' @
                         nl @ ''in function swap'')],
                 invocations := 1\<rparr>)
   \<and> length (stack (loaded\<lparr>stack := [CFunction MessageHandler,
                    Str (''attempt to concatenate a nil value'' @ nl @ ''stack traceback:'' @
                         nl @ ''in function swap'')],
                 invocations := 1\<rparr>))
       = length (stack loaded) + 2"
  using failed_pcall_depth
      [of sample_env loaded LUA_ERRRUN "loaded\<lparr>stack := [Str ''failed''], invocations := 1\<rparr>"]
    failed_pcall_depth
      [of sample_env loaded LUA_ERRRUN
          "loaded\<lparr>stack := [CFunction MessageHandler,
                    Str (''attempt to concatenate a nil value'' @ nl @ ''stack traceback:'' @
                         nl @ ''in function swap'')],
                 invocations := 1\<rparr>"]
  by (simp add: pcallFail_invoke_def pcallSwap_invoke_def sample_defs api_defs)

text \<open>
  Claim C6, as stated: right after a successful protected call the depth is the depth from
  before the call sequence began plus exactly the declared result count. In \<^verbatim>\<open>pcallSwap\<close>,
  with a \<^verbatim>\<open>swap\<close> that tolerates the missing argument, the depth on entry is 0, the
  declared result count is 2, and the depth right after \<^verbatim>\<open>lua_pcall\<close> returned \<^verbatim>\<open>LUA_OK\<close>
  is 3: the two results and, below them, the message handler.
\<close>

theorem successful_pcall_depth_counterexample:
  "depth_after (pcallSwap_invoke sample_env lenient) = Some (LUA_OK, 3)
   \<and> length (stack lenient) = 0
   \<and> (3::nat) \<noteq> length (stack lenient) + 2"
  by (simp add: depth_after_def pcallSwap_invoke_def sample_defs api_defs)

text \<open>
  Claim C6, amended. Right after the protected call returned \<^verbatim>\<open>LUA_OK\<close>, and before the
  caller consumes anything, the depth is the depth from before the callable was pushed
  plus exactly the declared result count: the depth on entry plus 0 in \<^verbatim>\<open>pcallFail\<close>
  (no handler, no results), and the depth on entry plus one (the handler, which stays on
  the stack) plus 2 in \<^verbatim>\<open>pcallSwap\<close>.
\<close>

theorem successful_pcall_depth:
  "(pcallFail_invoke E L = Inr (Inr (LUA_OK, L'))
      \<longrightarrow> length (stack L') = length (stack L) + 0)
   \<and> (pcallSwap_invoke E L = Inr (LUA_OK, L')
      \<longrightarrow> length (stack L') = length (stack L) + 1 + 2)"
  using pcallFail_invoke_stack [of E L LUA_OK L'] pcallSwap_invoke_stack [of E L LUA_OK L']
  by auto

theorem successful_pcall_depth_witness:
  "pcallFail_invoke sample_env lenient =
     Inr (Inr (LUA_OK, lenient\<lparr>invocations := 1\<rparr>))
   \<and> length (stack (lenient\<lparr>invocations := 1\<rparr>)) = length (stack lenient) + 0
   \<and> pcallSwap_invoke sample_env lenient =
     Inr (LUA_OK,
          lenient\<lparr>stack := [CFunction MessageHandler, Nil, Str ''red''], invocations := 1\<rparr>)
   \<and> length (stack (lenient\<lparr>stack := [CFunction MessageHandler, Nil, Str ''red''],
                             invocations := 1\<rparr>))
       = length (stack lenient) + 1 + 2"
  using successful_pcall_depth [of sample_env lenient "lenient\<lparr>invocations := 1\<rparr>"]
    successful_pcall_depth
      [of sample_env lenient
          "lenient\<lparr>stack := [CFunction MessageHandler, Nil, Str ''red''], invocations := 1\<rparr>"]
  by (simp add: pcallFail_invoke_def pcallSwap_invoke_def sample_defs api_defs)

subsection \<open>Depth when the host function returns\<close>

text \<open>
  Where the stack is restored: \<^verbatim>\<open>pcallFail\<close> after a runtime error whose value has a text
  (it prints the text and pops the value), \<^verbatim>\<open>pcallSwap\<close> after success (it resets the top
  to the depth saved on entry).
\<close>

lemma pcallFail_runtime_error_restores:
  assumes "pcallFail_invoke E L = Inr (Inr (LUA_ERRRUN, L'))"
    and "lua_isstring (last (stack L'))"
  shows "stack_of (pcallFail E L) = Some (stack L)"
proof -
  obtain e where st: "stack L' = stack L @ [e]"
    using pcallFail_invoke_stack [OF assms(1)]
    by (auto simp: length_Suc_conv)
  have te: "textual E e \<noteq> None"
    using assms(2) st by (simp add: textual_None)
  have i: "index2addr L' (- 1) = Some (length (stack L))"
    using st by (simp add: index2addr_def lua_gettop_def)
  obtain v where t: "lua_tostring E L' (- 1) =
      Inr (textual E e, L'\<lparr>stack := stack L @ [v]\<rparr>)"
    using lua_tostring_shape [OF i, of E] st by auto
  show ?thesis
    apply (simp only: pcallFail_def assms(1) sum.case prod.case pcallFail_check_def if_True)
    apply (simp only: t sum.case prod.case)
    apply (simp add: te stack_of_def lua_pop_def lua_settop_def cerr_def lua_gettop_def
        nat_add_distrib)
    done
qed

lemma pcallSwap_ok_restores:
  assumes "pcallSwap_invoke E L = Inr (LUA_OK, L')"
  shows "stack_of (pcallSwap E L) = Some (stack L)"
proof -
  obtain vs where st: "stack L' = stack L @ CFunction MessageHandler # vs"
    using pcallSwap_invoke_stack [OF assms] by auto
  show ?thesis
    by (simp add: pcallSwap_def assms pcallSwap_check_def stack_of_def lua_settop_def
        lua_gettop_def st)
qed

text \<open>
  Where it is not: after a runtime error \<^verbatim>\<open>pcallSwap\<close> pops the error value and returns,
  without the \<^verbatim>\<open>lua_settop(L,top)\<close> of its last line, so the handler stays.
\<close>

lemma pcallSwap_runtime_error_keeps_handler:
  assumes "pcallSwap_invoke E L = Inr (LUA_ERRRUN, L')"
  shows "stack_of (pcallSwap E L) = Some (stack L @ [CFunction MessageHandler])"
proof -
  obtain s where st: "stack L' = stack L @ [CFunction MessageHandler, Str s]"
    using pcallSwap_invoke_runtime_error_value [OF assms] by blast
  have i: "index2addr L' (- 1) = Some (Suc (length (stack L)))"
    using st by (simp add: index2addr_def lua_gettop_def)
  have t: "lua_tostring E L' (- 1) = Inr (Some (c_text s), L')"
    using st i by (simp add: lua_tostring_def textual_def nth_append)
  show ?thesis
    apply (simp only: pcallSwap_def assms sum.case prod.case pcallSwap_check_def if_True)
    apply (simp only: t sum.case prod.case)
    apply (simp add: st stack_of_def lua_pop_def lua_settop_def cerr_def lua_gettop_def
        nat_add_distrib)
    done
qed

text \<open>
  Claim C4 says that after a protected call is handled the depth is the depth from before
  the operation, for any sequence of repeated calls. On the sample script \<^verbatim>\<open>pcallSwap\<close>
  raises (the second argument is missing, as the source intends), the stack on entry is
  empty, and \<^verbatim>\<open>pcallSwap\<close> returns with the handler still on it; a second call leaves two.
\<close>

theorem pcallSwap_runtime_error_leaks_slot:
  "stack loaded = []
   \<and> stack_of (pcallSwap sample_env loaded) = Some [CFunction MessageHandler]
   \<and> stack_of (case pcallSwap sample_env loaded of
                 Inl x \<Rightarrow> Inl x
               | Inr L1 \<Rightarrow> pcallSwap sample_env L1)
       = Some [CFunction MessageHandler, CFunction MessageHandler]"
  by (simp add: stack_of_def pcallSwap_def pcallSwap_check_def pcallSwap_invoke_def
      sample_defs api_defs)

subsection \<open>A name that is not defined\<close>

text \<open>\<^verbatim>\<open>pcallFail\<close> tests the looked-up value and returns before any call when it is nil.\<close>

lemma pcallFail_missing_global:
  assumes "globals L ''fail'' = None"
  shows "pcallFail E L =
     Inr (L\<lparr>stack := stack L @ [Nil],
            console := console L @ [Cerr [Some (''Global function fail not found'' @ nl)]]\<rparr>)"
  using assms
  by (simp add: pcallFail_def pcallFail_invoke_def lua_getglobal_def push_def lua_isnil_def
      index2addr_def lua_gettop_def cerr_def)

text \<open>
  \<^verbatim>\<open>pcallSwap\<close> has no such test: with \<^verbatim>\<open>swap\<close> undefined it hands nil to the protected
  call, the interpreter raises, the handler runs, and the status is \<^verbatim>\<open>LUA_ERRRUN\<close>.
\<close>

lemma pcallSwap_missing_global:
  assumes "globals L ''swap'' = None"
  shows "pcallSwap_invoke E L =
     Inr (LUA_ERRRUN,
          L\<lparr>stack := stack L @ [CFunction MessageHandler,
                 Str (''attempt to call a nil value'' @ nl @ ''stack traceback:'' @
                      render E (callstack L))],
            invocations := invocations L + 1\<rparr>)"
proof -
  have h: "call_c E (L\<lparr>stack := stack L @ [CFunction MessageHandler, Nil, Str ''red'']\<rparr>)
             MessageHandler [Str ''attempt to call a nil value''] (callstack L) =
           Inr [Str (''attempt to call a nil value'' @ nl @ ''stack traceback:'' @
                     render E (callstack L))]"
    by (simp add: call_c_handler traceback_text_def textual_def c_text_def)
  show ?thesis
    using assms h
    by (simp add: pcallSwap_invoke_def lua_pcall_def lua_pushstring_def lua_getglobal_def
        lua_pushcfunction_def push_def lua_gettop_def index2addr_def invoke_def type_name_def
        run_handler_def adjust_def nth_append)
qed

text \<open>
  Claim C2 says that a protected call on a name that is not defined reports a lookup
  failure before \<^verbatim>\<open>lua_pcall\<close> is invoked, so that no interpreter-level error is raised. On
  a script without \<^verbatim>\<open>swap\<close>, \<^verbatim>\<open>pcallSwap\<close> does invoke it (one invocation is counted), gets
  \<^verbatim>\<open>LUA_ERRRUN\<close> with the interpreter's error as the error value, and prints that
  traceback; no lookup message is written.
\<close>

theorem pcallSwap_absent_name_reaches_pcall:
  "globals no_swap ''swap'' = None
   \<and> pcallSwap_invoke sample_env no_swap =
       Inr (LUA_ERRRUN,
            no_swap\<lparr>stack := [CFunction MessageHandler,
                       Str (''attempt to call a nil value'' @ nl @ ''stack traceback:'')],
                    invocations := 1\<rparr>)
   \<and> pcallSwap sample_env no_swap =
       Inr (no_swap\<lparr>stack := [CFunction MessageHandler],
                    console := [Cerr [Some (''attempt to call a nil value'' @ nl @
                                            ''stack traceback:''), Some nl]],
                    invocations := 1\<rparr>)"
  by (simp add: pcallSwap_def pcallSwap_check_def pcallSwap_invoke_def sample_defs api_defs
      nl_def)

text \<open>
  \<^verbatim>\<open>callSwap\<close> has no test either, and its call is unprotected: with \<^verbatim>\<open>swap\<close> undefined
  the interpreter's error reaches the panic function and the process aborts.
\<close>

lemma callSwap_missing_global:
  assumes "globals L ''swap'' = None"
  shows "callSwap E L = Inl (Panic (Str ''attempt to call a nil value''))"
  using assms
  by (simp add: callSwap_def callSwap_invoke_def lua_call_def lua_pushstring_def
      lua_getglobal_def push_def lua_gettop_def invoke_def type_name_def nth_append)

text \<open>
  Claim C3 says that every unprotected call checks that the name resolved to a callable
  before invoking it and reports a lookup failure without invoking when it is absent. On a
  script without \<^verbatim>\<open>swap\<close>, \<^verbatim>\<open>callSwap\<close> invokes nil and the process aborts on the
  interpreter's error; \<^verbatim>\<open>callHello\<close> on the state without \<^verbatim>\<open>hello\<close> reports and returns.
\<close>

theorem callSwap_absent_name_panics:
  "globals no_swap ''swap'' = None
   \<and> callSwap sample_env no_swap = Inl (Panic (Str ''attempt to call a nil value''))
   \<and> callHello sample_env state0 =
       Inr (state0\<lparr>stack := [Nil],
              console := [Cerr [Some (''Global function hello not found'' @ nl)]]\<rparr>)"
  by (simp add: callSwap_def callSwap_invoke_def callHello_def sample_defs api_defs)

section \<open>Release of the interpreter instance\<close>

lemma closed_lua_pcall: "lua_pcall E L n r m = Inr (st, L') \<Longrightarrow> closed L' = closed L"
  by (auto simp: lua_pcall_def Let_def
      split: if_splits sum.splits prod.splits call_outcome.splits)

lemma closed_lua_call: "lua_call E L n r = Inr L' \<Longrightarrow> closed L' = closed L"
  by (auto simp: lua_call_def split: if_splits sum.splits prod.splits call_outcome.splits)

lemma closed_lua_tostring: "lua_tostring E L i = Inr (t, L') \<Longrightarrow> closed L' = closed L"
  by (auto simp: lua_tostring_def split: option.splits lua_value.splits)

lemma closed_lua_settop: "lua_settop L i = Inr L' \<Longrightarrow> closed L' = closed L"
  by (auto simp: lua_settop_def split: if_splits)

lemma closed_callHello: "callHello E L = Inr L' \<Longrightarrow> closed L' = closed L"
  by (auto simp: callHello_def lua_getglobal_def push_def cerr_def
      split: sum.splits bool.splits dest!: closed_lua_call)

lemma closed_callSwap: "callSwap E L = Inr L' \<Longrightarrow> closed L' = closed L"
  by (auto simp: callSwap_def callSwap_invoke_def lua_getglobal_def lua_pushstring_def push_def
      cout_def lua_pop_def
      split: sum.splits prod.splits if_splits
      dest!: closed_lua_call closed_lua_tostring closed_lua_settop)

lemma closed_pcallFail: "pcallFail E L = Inr L' \<Longrightarrow> closed L' = closed L"
  by (auto simp: pcallFail_def pcallFail_invoke_def pcallFail_check_def lua_getglobal_def
      push_def cerr_def lua_pop_def
      split: sum.splits prod.splits bool.splits if_splits
      dest!: closed_lua_pcall closed_lua_tostring closed_lua_settop)

lemma closed_pcallSwap: "pcallSwap E L = Inr L' \<Longrightarrow> closed L' = closed L"
  by (auto simp: pcallSwap_def pcallSwap_invoke_def pcallSwap_check_def lua_getglobal_def
      lua_pushstring_def lua_pushcfunction_def push_def cerr_def lua_pop_def
      split: sum.splits prod.splits if_splits
      dest!: closed_lua_pcall closed_lua_tostring closed_lua_settop)

lemma closed_run_calls: "run_calls E L = Inr L' \<Longrightarrow> closed L' = closed L"
  by (auto simp: run_calls_def split: sum.splits
      dest!: closed_callHello closed_callSwap closed_pcallFail closed_pcallSwap)

lemma closed_luaL_dofile: "luaL_dofile E L f = Inr (st, L') \<Longrightarrow> closed L' = closed L"
  by (auto simp: luaL_dofile_def luaL_loadfile_def push_def
      split: sum.splits prod.splits if_splits dest!: closed_lua_pcall)

lemma closed_luaL_dostring: "luaL_dostring E L f = Inr (st, L') \<Longrightarrow> closed L' = closed L"
  by (auto simp: luaL_dostring_def luaL_loadstring_def push_def
      split: sum.splits prod.splits if_splits dest!: closed_lua_pcall)

lemma closed_luaL_checkstring: "luaL_checkstring E L i = Inr (s, L') \<Longrightarrow> closed L' = closed L"
  by (auto simp: luaL_checkstring_def
      split: sum.splits prod.splits option.splits dest!: closed_lua_tostring)

text \<open>
  What the two programs do: the instance is released once when \<^verbatim>\<open>main\<close> returns 0 and
  not at all on any other path.
\<close>

lemma hello_world_released:
  "released (hello_world_main E) = (if ending (hello_world_main E) = Inr 0 then 1 else 0)"
  by (auto simp: hello_world_main_def luaL_newstate_def released_def luaL_openlibs_def
      cerr_def lua_close_def
      split: sum.splits prod.splits dest!: closed_luaL_dostring)

lemma calling_lua_function_released:
  "released (calling_lua_function_main E) =
     (if ending (calling_lua_function_main E) = Inr 0 then 1 else 0)"
  by (auto simp: calling_lua_function_main_def luaL_newstate_def released_def luaL_openlibs_def
      cout_def lua_close_def
      split: sum.splits prod.splits
      dest!: closed_luaL_dofile closed_luaL_checkstring closed_run_calls)

text \<open>
  Claim C1 says that on every path on which the instance was created it is released
  exactly once before the process exits, the early returns on a failed load included. With
  an interpreter whose allocation succeeds and whose load of the script fails, both
  programs create the instance, return -1, and have released it zero times.
\<close>

theorem main_early_return_never_closes:
  "interpreter (hello_world_main broken_env) \<noteq> None
   \<and> ending (hello_world_main broken_env) = Inr (- 1)
   \<and> released (hello_world_main broken_env) = 0
   \<and> interpreter (calling_lua_function_main broken_env) \<noteq> None
   \<and> ending (calling_lua_function_main broken_env) = Inr (- 1)
   \<and> released (calling_lua_function_main broken_env) = 0"
  by (simp add: hello_world_main_def calling_lua_function_main_def released_def
      luaL_newstate_def luaL_openlibs_def luaL_dostring_def luaL_dofile_def
      luaL_loadstring_def luaL_loadfile_def luaL_checkstring_def lua_close_def
      sample_defs api_defs)

end
